theory Spec2Isabelle
  imports Complex_Main "HOL-Library.Word" "HOL-Library.Multiset"
begin

unbundle bit_operations_syntax

section \<open>JavaScript numbers\<close>

text \<open>
  The engine computes with JavaScript Numbers. A Number is modelled as a real number or
  one of the three non-finite values: the finite doubles are idealised as reals (no
  overflow, no negative zero, and no rounding except for the counter of the margin loop,
  see below), and what JavaScript does when a computation
  leaves the finite numbers (division by zero, arithmetic on \<open>undefined\<close>) is
  written out, so that \<open>x / 0\<close> is an infinity or \<open>NaN\<close> as in the program.
\<close>

datatype jsnum = Num real | PosInf | NegInf | NaN

instantiation jsnum :: "{plus,minus,uminus,times,inverse,ord}"
begin

fun plus_jsnum :: "jsnum \<Rightarrow> jsnum \<Rightarrow> jsnum" where
  "Num a + Num b = Num (a + b)"
| "NaN + _ = NaN"
| "_ + NaN = NaN"
| "PosInf + NegInf = NaN"
| "NegInf + PosInf = NaN"
| "PosInf + _ = PosInf"
| "_ + PosInf = PosInf"
| "NegInf + _ = NegInf"
| "_ + NegInf = NegInf"

fun uminus_jsnum :: "jsnum \<Rightarrow> jsnum" where
  "- Num a = Num (- a)"
| "- PosInf = NegInf"
| "- NegInf = PosInf"
| "- NaN = NaN"

fun minus_jsnum :: "jsnum \<Rightarrow> jsnum \<Rightarrow> jsnum" where
  "Num a - Num b = Num (a - b)"
| "NaN - _ = NaN"
| "_ - NaN = NaN"
| "PosInf - PosInf = NaN"
| "NegInf - NegInf = NaN"
| "PosInf - _ = PosInf"
| "_ - NegInf = PosInf"
| "NegInf - _ = NegInf"
| "_ - PosInf = NegInf"

fun times_jsnum :: "jsnum \<Rightarrow> jsnum \<Rightarrow> jsnum" where
  "Num a * Num b = Num (a * b)"
| "NaN * _ = NaN"
| "_ * NaN = NaN"
| "Num a * PosInf = (if 0 < a then PosInf else if a < 0 then NegInf else NaN)"
| "Num a * NegInf = (if 0 < a then NegInf else if a < 0 then PosInf else NaN)"
| "PosInf * Num b = (if 0 < b then PosInf else if b < 0 then NegInf else NaN)"
| "NegInf * Num b = (if 0 < b then NegInf else if b < 0 then PosInf else NaN)"
| "PosInf * PosInf = PosInf"
| "PosInf * NegInf = NegInf"
| "NegInf * PosInf = NegInf"
| "NegInf * NegInf = PosInf"

fun divide_jsnum :: "jsnum \<Rightarrow> jsnum \<Rightarrow> jsnum" where
  "divide_jsnum (Num a) (Num b) =
     (if b \<noteq> 0 then Num (a / b)
      else if 0 < a then PosInf else if a < 0 then NegInf else NaN)"
| "divide_jsnum NaN _ = NaN"
| "divide_jsnum _ NaN = NaN"
| "divide_jsnum (Num a) PosInf = Num 0"
| "divide_jsnum (Num a) NegInf = Num 0"
| "divide_jsnum PosInf (Num b) = (if 0 \<le> b then PosInf else NegInf)"
| "divide_jsnum NegInf (Num b) = (if 0 \<le> b then NegInf else PosInf)"
| "divide_jsnum PosInf PosInf = NaN"
| "divide_jsnum PosInf NegInf = NaN"
| "divide_jsnum NegInf PosInf = NaN"
| "divide_jsnum NegInf NegInf = NaN"

definition inverse_jsnum :: "jsnum \<Rightarrow> jsnum" where
  "inverse_jsnum a = divide (Num 1) a"

fun less_eq_jsnum :: "jsnum \<Rightarrow> jsnum \<Rightarrow> bool" where
  "Num a \<le> Num b = (a \<le> b)"
| "NaN \<le> _ = False"
| "_ \<le> NaN = False"
| "NegInf \<le> _ = True"
| "_ \<le> PosInf = True"
| "PosInf \<le> _ = False"
| "_ \<le> NegInf = False"

fun less_jsnum :: "jsnum \<Rightarrow> jsnum \<Rightarrow> bool" where
  "Num a < Num b = (a < b)"
| "NaN < _ = False"
| "_ < NaN = False"
| "PosInf < _ = False"
| "_ < NegInf = False"
| "NegInf < _ = True"
| "_ < PosInf = True"

instance ..

end

text \<open>\<open>Math.min\<close>, \<open>Math.max\<close>, \<open>Math.round\<close>, \<open>Math.exp\<close>: \<open>NaN\<close> is contagious.\<close>

fun Math_min :: "jsnum \<Rightarrow> jsnum \<Rightarrow> jsnum" where
  "Math_min NaN _ = NaN"
| "Math_min _ NaN = NaN"
| "Math_min a b = (if a \<le> b then a else b)"

fun Math_max :: "jsnum \<Rightarrow> jsnum \<Rightarrow> jsnum" where
  "Math_max NaN _ = NaN"
| "Math_max _ NaN = NaN"
| "Math_max a b = (if a \<le> b then b else a)"

fun Math_round :: "jsnum \<Rightarrow> jsnum" where
  "Math_round (Num a) = Num (of_int \<lfloor>a + 1 / 2\<rfloor>)"
| "Math_round x = x"

fun Math_exp :: "jsnum \<Rightarrow> jsnum" where
  "Math_exp (Num a) = Num (exp a)"
| "Math_exp PosInf = PosInf"
| "Math_exp NegInf = Num 0"
| "Math_exp NaN = NaN"

text \<open>Truthiness of a Number, and \<open>x || d\<close> on Numbers: \<open>0\<close> and \<open>NaN\<close> are falsy.\<close>

fun truthy :: "jsnum \<Rightarrow> bool" where
  "truthy (Num a) = (a \<noteq> 0)"
| "truthy NaN = False"
| "truthy _ = True"

definition or_else :: "jsnum \<Rightarrow> jsnum \<Rightarrow> jsnum" where
  "or_else x d = (if truthy x then x else d)"

text \<open>\<open>x === 0\<close> on a Number.\<close>

definition is_zero :: "jsnum \<Rightarrow> bool" where
  "is_zero x = (x = Num 0)"


subsection \<open>Rounding to a double\<close>

text \<open>
  Where rounding decides the control flow (the counter of the margin loop of
  \<open>findOptimalPrice\<close>), the double arithmetic is modelled exactly. \<open>double x\<close> is the
  binary64 number nearest to \<open>x\<close>, ties to the even significand: for
  \<open>2^e \<le> |x| < 2^(e+1)\<close> the doubles are the multiples of \<open>2^(e-52)\<close>. (The
  exponent range, that is overflow and subnormal numbers, is not modelled.) A decimal
  literal of the program denotes \<open>double\<close> of its value, and \<open>a + b\<close> on doubles is
  \<open>double (a + b)\<close>.
\<close>

definition pow2 :: "int \<Rightarrow> real" where
  "pow2 e = (if 0 \<le> e then 2 ^ nat e else 1 / 2 ^ nat (- e))"

definition roundHalfEven :: "real \<Rightarrow> int" where
  "roundHalfEven q =
     (let n = \<lfloor>q\<rfloor>; r = q - of_int n
      in if r < 1 / 2 then n else if 1 / 2 < r then n + 1 else if even n then n else n + 1)"

definition double :: "real \<Rightarrow> real" where
  "double x =
     (if x = 0 then 0
      else let e = \<lfloor>log 2 \<bar>x\<bar>\<rfloor>; ulp = pow2 (e - 52)
           in of_int (roundHalfEven (x / ulp)) * ulp)"


section \<open>The technology registry (technologies.js)\<close>

record technology =
  t_id :: string
  t_name :: string
  t_tssRemoval :: real
  t_tdsRemoval :: real
  t_bodRemoval :: real
  t_codRemoval :: real
  t_energy :: real
  t_footprint :: real
  t_capexFactor :: real
  t_maintenance :: real
  t_chemicalConsumption :: real
  t_lifespan :: real

definition mk_tech ::
  "string \<Rightarrow> string \<Rightarrow> real \<Rightarrow> real \<Rightarrow> real \<Rightarrow> real \<Rightarrow> real \<Rightarrow> real \<Rightarrow> real \<Rightarrow> real \<Rightarrow> real \<Rightarrow> real
     \<Rightarrow> technology" where
  "mk_tech i n tss tds bod cod en fp cx mt ch life =
     \<lparr>t_id = i, t_name = n, t_tssRemoval = tss, t_tdsRemoval = tds, t_bodRemoval = bod,
      t_codRemoval = cod, t_energy = en, t_footprint = fp, t_capexFactor = cx,
      t_maintenance = mt, t_chemicalConsumption = ch, t_lifespan = life\<rparr>"

text \<open>The own properties of the object literal \<open>TECHNOLOGIES\<close>, in source order.\<close>

definition TECHNOLOGIES :: "(string \<times> technology) list" where
  "TECHNOLOGIES =
    [(''UF'',  mk_tech ''UF''  ''Ultrafiltration''         0.99 0.05 0.30 0.25 0.3  0.8 1.0 0.02 0.01 7),
     (''MBR'', mk_tech ''MBR'' ''Membrane Bioreactor''     0.99 0.10 0.95 0.90 0.8  0.5 1.8 0.04 0.03 10),
     (''RO'',  mk_tech ''RO''  ''Reverse Osmosis''         0.99 0.97 0.95 0.95 2.5  1.0 2.2 0.03 0.05 5),
     (''UV'',  mk_tech ''UV''  ''UV Disinfection''         0.0  0.0  0.0  0.0  0.1  0.2 0.3 0.05 0.0  15),
     (''AOP'', mk_tech ''AOP'' ''Advanced Oxidation''      0.3  0.2  0.8  0.85 1.2  0.4 1.5 0.04 0.15 12),
     (''NF'',  mk_tech ''NF''  ''Nanofiltration''          0.99 0.60 0.80 0.75 1.0  0.9 1.6 0.03 0.03 6),
     (''DAF'', mk_tech ''DAF'' ''Dissolved Air Flotation'' 0.90 0.0  0.30 0.25 0.05 1.5 0.8 0.02 0.02 20)]"

text \<open>
  \<open>TECHNOLOGIES[techId]\<close> is a property read on a plain object: it finds the object's own
  property, or else a property inherited from \<open>Object.prototype\<close>, or else
  \<open>undefined\<close>. The inherited values are functions (and, for \<open>__proto__\<close>, the
  prototype object): they are truthy and have none of a technology's fields.
\<close>

definition Object_prototype_keys :: "string list" where
  "Object_prototype_keys =
    [''constructor'', ''hasOwnProperty'', ''isPrototypeOf'', ''propertyIsEnumerable'',
     ''toLocaleString'', ''toString'', ''valueOf'', ''__proto__'',
     ''__defineGetter__'', ''__defineSetter__'', ''__lookupGetter__'', ''__lookupSetter__'']"

datatype property = Own technology | Inherited | Undefined

definition TECHNOLOGIES_get :: "string \<Rightarrow> property" where
  "TECHNOLOGIES_get techId =
     (case map_of TECHNOLOGIES techId of
        Some t \<Rightarrow> Own t
      | None \<Rightarrow> if techId \<in> set Object_prototype_keys then Inherited else Undefined)"

text \<open>
  A numeric field read from the value found: a missing field is \<open>undefined\<close>, which
  arithmetic turns into \<open>NaN\<close>.
\<close>

fun field :: "(technology \<Rightarrow> real) \<Rightarrow> property \<Rightarrow> jsnum" where
  "field f (Own t) = Num (f t)"
| "field f Inherited = NaN"
| "field f Undefined = NaN"

record chain =
  c_techs :: "string list"
  c_name :: string
  c_description :: string

definition TECH_CHAINS :: "chain list" where
  "TECH_CHAINS =
    [\<lparr>c_techs = [''UF'', ''RO''], c_name = ''UF + RO'', c_description = ''Standard high-purity treatment''\<rparr>,
     \<lparr>c_techs = [''MBR'', ''RO''], c_name = ''MBR + RO'', c_description = ''Biological treatment with RO polishing''\<rparr>,
     \<lparr>c_techs = [''UF''], c_name = ''UF Only'', c_description = ''Particle/pathogen removal''\<rparr>,
     \<lparr>c_techs = [''MBR''], c_name = ''MBR Only'', c_description = ''Biological treatment''\<rparr>,
     \<lparr>c_techs = [''UF'', ''RO'', ''UV''], c_name = ''UF + RO + UV'', c_description = ''Full treatment with disinfection''\<rparr>,
     \<lparr>c_techs = [''DAF'', ''UF'', ''RO''], c_name = ''DAF + UF + RO'', c_description = ''Complete train for high-load water''\<rparr>,
     \<lparr>c_techs = [''MBR'', ''NF''], c_name = ''MBR + NF'', c_description = ''Softening and organics removal''\<rparr>,
     \<lparr>c_techs = [''UF'', ''AOP'', ''RO''], c_name = ''UF + AOP + RO'', c_description = ''Micropollutant treatment''\<rparr>]"

text \<open>\<open>INDUSTRY_PRESETS\<close>: the preferred chain names of each sector.\<close>

definition INDUSTRY_PRESETS :: "(string \<times> string list) list" where
  "INDUSTRY_PRESETS =
    [(''pharmaceutical'', [''UF + RO'', ''UF + RO + UV'']),
     (''foodBeverage'', [''UF + RO'', ''MBR + RO'']),
     (''power'', [''UF + RO'', ''DAF + UF + RO'']),
     (''municipal'', [''MBR'', ''UF + UV'']),
     (''oilGas'', [''DAF + UF + RO'', ''MBR + NF'']),
     (''semiconductor'', [''UF + RO + UV'', ''UF + AOP + RO''])]"

record performance =
  p_techs :: "string list"
  p_tssRemoval :: jsnum
  p_tdsRemoval :: jsnum
  p_bodRemoval :: jsnum
  p_codRemoval :: jsnum
  p_energy :: jsnum
  p_footprint :: jsnum
  p_capexFactor :: jsnum
  p_maintenance :: jsnum
  p_chemicals :: jsnum

text \<open>
  The body of the \<open>forEach\<close> callback of \<open>calculateChainPerformance\<close>: the running
  totals are the record's fields, \<open>p_techs\<close> is carried along unchanged.
\<close>

definition chainStep :: "performance \<Rightarrow> string \<Rightarrow> performance" where
  "chainStep acc techId =
     (let tech = TECHNOLOGIES_get techId in
      if tech = Undefined then acc
      else acc\<lparr>
        p_tssRemoval := Num 1 - (Num 1 - p_tssRemoval acc) * (Num 1 - field t_tssRemoval tech),
        p_tdsRemoval := Num 1 - (Num 1 - p_tdsRemoval acc) * (Num 1 - field t_tdsRemoval tech),
        p_bodRemoval := Num 1 - (Num 1 - p_bodRemoval acc) * (Num 1 - field t_bodRemoval tech),
        p_codRemoval := Num 1 - (Num 1 - p_codRemoval acc) * (Num 1 - field t_codRemoval tech),
        p_energy := p_energy acc + field t_energy tech,
        p_footprint := p_footprint acc + field t_footprint tech,
        p_capexFactor := p_capexFactor acc + field t_capexFactor tech,
        p_maintenance := p_maintenance acc + field t_maintenance tech,
        p_chemicals := p_chemicals acc + field t_chemicalConsumption tech\<rparr>)"

definition calculateChainPerformance :: "string list \<Rightarrow> performance" where
  "calculateChainPerformance techs =
     foldl chainStep
       \<lparr>p_techs = techs, p_tssRemoval = Num 0, p_tdsRemoval = Num 0, p_bodRemoval = Num 0,
        p_codRemoval = Num 0, p_energy = Num 0, p_footprint = Num 0, p_capexFactor = Num 0,
        p_maintenance = Num 0, p_chemicals = Num 0\<rparr>
       techs"


text \<open>
  A removal fraction lies in \<open>[0,1]\<close>; and the four removal fractions that the
  registry gives for an identifier do (an identifier that is looked up and skipped has
  none).
\<close>

definition unitFraction :: "jsnum \<Rightarrow> bool" where
  "unitFraction x = (Num 0 \<le> x \<and> x \<le> Num 1)"

definition fractionsInUnit :: "string \<Rightarrow> bool" where
  "fractionsInUnit techId =
     (let tech = TECHNOLOGIES_get techId in
      tech = Undefined \<or>
      (unitFraction (field t_tssRemoval tech) \<and> unitFraction (field t_tdsRemoval tech) \<and>
       unitFraction (field t_bodRemoval tech) \<and> unitFraction (field t_codRemoval tech)))"

section \<open>The simulator's calculations (calculations.js)\<close>

record inputs =
  sector :: jsnum
  flow :: jsnum
  hours :: jsnum
  tss :: jsnum
  tds :: jsnum
  bod :: jsnum
  cod :: jsnum
  tssTarget :: jsnum
  tdsTarget :: jsnum
  waterPriority :: jsnum
  carbonPriority :: jsnum
  energyPriority :: jsnum
  maxFootprint :: jsnum
  maxBudget :: jsnum

record weights =
  water :: jsnum
  carbon :: jsnum
  energy :: jsnum

definition normalizeESGWeights :: "inputs \<Rightarrow> weights" where
  "normalizeESGWeights i =
     (let total = waterPriority i + carbonPriority i + energyPriority i in
      if is_zero total then \<lparr>water = Num 0.33, carbon = Num 0.33, energy = Num 0.34\<rparr>
      else \<lparr>water = waterPriority i / total, carbon = carbonPriority i / total,
            energy = energyPriority i / total\<rparr>)"

record removal =
  r_tss :: jsnum
  r_tds :: jsnum

definition calculateRemovalNeeded :: "inputs \<Rightarrow> removal" where
  "calculateRemovalNeeded i =
     \<lparr>r_tss = (if Num 0 < tss i then Num 1 - (tssTarget i / tss i) else Num 0),
      r_tds = (if Num 0 < tds i then Num 1 - (tdsTarget i / tds i) else Num 0)\<rparr>"

record solution =
  name :: string
  description :: string
  techs :: "string list"
  tssRemoval :: jsnum
  tdsRemoval :: jsnum
  s_energy :: jsnum
  footprint :: jsnum
  capex :: jsnum
  recovery :: jsnum
  techScore :: jsnum
  costScore :: jsnum
  esgScore :: jsnum
  overallScore :: jsnum
  feasible :: bool

text \<open>The body of the loop over \<open>TECH_CHAINS\<close>: the solution pushed for one chain.\<close>

definition evaluateChain :: "inputs \<Rightarrow> chain \<Rightarrow> solution" where
  "evaluateChain i ch =
     (let removalNeeded = calculateRemovalNeeded i;
          esgWeights = normalizeESGWeights i;
          perf = calculateChainPerformance (c_techs ch);
          footprint = p_footprint perf * flow i * Num 0.5;
          capex = p_capexFactor perf * flow i * Num 1000;
          recovery = (if Num 0.5 < r_tds removalNeeded then Num 0.75 else Num 0.9);
          tssScore = (if r_tss removalNeeded \<le> p_tssRemoval perf then Num 1
                      else p_tssRemoval perf / or_else (r_tss removalNeeded) (Num 1));
          tdsScore = (if r_tds removalNeeded \<le> p_tdsRemoval perf then Num 1
                      else p_tdsRemoval perf / or_else (r_tds removalNeeded) (Num 1));
          techScore = tssScore * tdsScore;
          costScore = Num 1 - Math_min (capex / maxBudget i) (Num 1);
          waterScore = recovery;
          energyScore = Num 1 - Math_min (p_energy perf / Num 5) (Num 1);
          carbonScore = Num 1 - Math_min (p_energy perf * Num 0.5 / Num 2) (Num 1);
          esgScore = (waterScore * water esgWeights) + (energyScore * energy esgWeights)
                     + (carbonScore * carbon esgWeights);
          overallScore = (techScore * Num 0.4) + (costScore * Num 0.3) + (esgScore * Num 0.3);
          feasible = (r_tss removalNeeded \<le> p_tssRemoval perf
                      \<and> r_tds removalNeeded \<le> p_tdsRemoval perf
                      \<and> footprint \<le> maxFootprint i
                      \<and> capex \<le> maxBudget i)
      in \<lparr>name = c_name ch, description = c_description ch, techs = c_techs ch,
          tssRemoval = p_tssRemoval perf, tdsRemoval = p_tdsRemoval perf,
          s_energy = p_energy perf, footprint = footprint, capex = capex,
          recovery = recovery, techScore = techScore, costScore = costScore,
          esgScore = esgScore, overallScore = overallScore, feasible = feasible\<rparr>)"

text \<open>
  \<open>Array.prototype.sort\<close> with a comparator is stable; a comparator result of
  \<open>NaN\<close> counts as \<open>0\<close>. The model is the stable insertion sort: \<open>a\<close> goes
  behind \<open>b\<close> exactly when the comparator's value on \<open>(a, b)\<close> is positive. (For a
  comparator that is not a consistent order the language leaves the result order to the
  implementation; every implementation returns a permutation.)
\<close>

fun insertBy :: "('a \<Rightarrow> 'a \<Rightarrow> jsnum) \<Rightarrow> 'a \<Rightarrow> 'a list \<Rightarrow> 'a list" where
  "insertBy cmp a [] = [a]"
| "insertBy cmp a (b # bs) =
     (if Num 0 < cmp a b then b # insertBy cmp a bs else a # b # bs)"

definition sortBy :: "('a \<Rightarrow> 'a \<Rightarrow> jsnum) \<Rightarrow> 'a list \<Rightarrow> 'a list" where
  "sortBy cmp xs = foldr (insertBy cmp) xs []"

definition evaluateTechnologies :: "inputs \<Rightarrow> solution list" where
  "evaluateTechnologies i =
     sortBy (\<lambda>a b. overallScore b - overallScore a) (map (evaluateChain i) TECH_CHAINS)"

record constraintCheck =
  ck_name :: string
  required :: jsnum
  achieved :: jsnum
  pass :: bool
  ck_margin :: jsnum

definition checkConstraints :: "inputs \<Rightarrow> solution \<Rightarrow> constraintCheck list" where
  "checkConstraints i s =
     (let removalNeeded = calculateRemovalNeeded i in
      [\<lparr>ck_name = ''TSS Removal'', required = r_tss removalNeeded, achieved = tssRemoval s,
        pass = (r_tss removalNeeded \<le> tssRemoval s),
        ck_margin = tssRemoval s - r_tss removalNeeded\<rparr>,
       \<lparr>ck_name = ''TDS Removal'', required = r_tds removalNeeded, achieved = tdsRemoval s,
        pass = (r_tds removalNeeded \<le> tdsRemoval s),
        ck_margin = tdsRemoval s - r_tds removalNeeded\<rparr>,
       \<lparr>ck_name = ''Footprint'', required = maxFootprint i, achieved = footprint s,
        pass = (footprint s \<le> maxFootprint i),
        ck_margin = maxFootprint i - footprint s\<rparr>,
       \<lparr>ck_name = ''Budget (CAPEX)'', required = maxBudget i, achieved = capex s,
        pass = (capex s \<le> maxBudget i),
        ck_margin = maxBudget i - capex s\<rparr>])"

text \<open>The result of \<open>calculateConfidence\<close>, without its \<open>factors\<close> entry (the three
  terms of the sum, each times 100).\<close>

record confidence =
  score :: jsnum
  decision :: string
  level :: string

definition calculateConfidence :: "inputs \<Rightarrow> solution \<Rightarrow> confidence" where
  "calculateConfidence i s =
     (let dataQuality = Num 0.85;
          modelCertainty = techScore s;
          constraintMargin = (if feasible s then Num 0.9 else Num 0.3);
          confidence = (Num 0.4 * dataQuality) + (Num 0.35 * modelCertainty)
                       + (Num 0.25 * constraintMargin);
          score = confidence * Num 100
      in \<lparr>score = score,
          decision = (if Num 80 \<le> score then ''Auto-approve recommended''
                      else if Num 50 \<le> score then ''Human review recommended''
                      else ''Manual override required''),
          level = (if Num 80 \<le> score then ''high''
                   else if Num 50 \<le> score then ''medium'' else ''low'')\<rparr>)"


subsection \<open>The ledger hash\<close>

text \<open>
  \<open>generateLedgerHash\<close> reads three things from its environment:
  \<^item> \<open>JSON.stringify\<close>, the host's serialiser, applied to the payload
    \<open>{inputs, solution: solution.name, timestamp}\<close>; its result is a string of UTF-16
    code units (what \<open>charCodeAt\<close> returns);
  \<^item> \<open>Date.now()\<close>, the timestamp in milliseconds;
  \<^item> \<open>Math.random().toString(16)\<close>, the hexadecimal text of a fresh random number.
  They are arguments of the model.
\<close>

type_synonym utf16 = "nat list"

record payload =
  pl_inputs :: inputs
  pl_solution :: string
  pl_timestamp :: nat

text \<open>
  One round of the loop. \<open>hash\<close> is a 32-bit integer throughout: \<open>hash << 5\<close> and
  \<open>hash & hash\<close> convert to 32 bits, and the subtraction and addition between them are
  exact, so the round is arithmetic modulo \<open>2^32\<close>.
\<close>

definition hashRound :: "32 word \<Rightarrow> nat \<Rightarrow> 32 word" where
  "hashRound hash char =
     (let hash' = (push_bit 5 hash - hash) + of_nat char in hash' AND hash')"

definition hexDigit :: "nat \<Rightarrow> char" where
  "hexDigit d = ''0123456789abcdef'' ! d"

text \<open>\<open>n.toString(16)\<close> for a non-negative integer.\<close>

function toString16 :: "nat \<Rightarrow> string" where
  "toString16 n = (if n < 16 then [hexDigit n] else toString16 (n div 16) @ [hexDigit (n mod 16)])"
  by pat_completeness auto
termination
  by (relation "measure id") auto

definition padStart :: "nat \<Rightarrow> char \<Rightarrow> string \<Rightarrow> string" where
  "padStart n c s = replicate (n - length s) c @ s"

definition substr :: "nat \<Rightarrow> nat \<Rightarrow> string \<Rightarrow> string" where
  "substr start len s = take len (drop start s)"

definition generateLedgerHash ::
  "(payload \<Rightarrow> utf16) \<Rightarrow> nat \<Rightarrow> string \<Rightarrow> inputs \<Rightarrow> solution \<Rightarrow> string" where
  "generateLedgerHash JSON_stringify Date_now Math_random_hex i s =
     (let data = JSON_stringify \<lparr>pl_inputs = i, pl_solution = name s, pl_timestamp = Date_now\<rparr>;
          hash = foldl hashRound 0 data
      in ''0x'' @ padStart 16 (CHR ''0'') (toString16 (nat \<bar>sint hash\<bar>))
         @ substr 2 48 Math_random_hex)"

subsection \<open>The simulator's run (simulator.js)\<close>

text \<open>
  \<open>Simulator.run\<close> as a function of the inputs gathered from the form. Of the results
  record the model keeps the inputs, the ranked solutions, \<open>bestSolution\<close> and the two
  values derived from it that the properties below speak about; the other entries
  (mass balance, energy, costs, pricing, ledger hash) are further functions of
  \<open>(inputs, bestSolution)\<close>. \<open>solutions[0]\<close> of an empty array is \<open>undefined\<close>, and
  \<open>checkConstraints\<close> then fails with a \<open>TypeError\<close> on \<open>solution.tssRemoval\<close>.
\<close>

datatype js_error = TypeError | Error string

record results =
  res_inputs :: inputs
  res_solutions :: "solution list"
  bestSolution :: "solution option"
  res_constraints :: "constraintCheck list"
  res_confidence :: confidence

definition first_elem :: "'a list \<Rightarrow> 'a option" where
  "first_elem xs = (case xs of [] \<Rightarrow> None | x # _ \<Rightarrow> Some x)"

definition run :: "inputs \<Rightarrow> js_error + results" where
  "run i =
     (let solutions = evaluateTechnologies i;
          best = first_elem solutions
      in case best of
           None \<Rightarrow> Inl TypeError
         | Some b \<Rightarrow>
             Inr \<lparr>res_inputs = i, res_solutions = solutions, bestSolution = best,
                  res_constraints = checkConstraints i b,
                  res_confidence = calculateConfidence i b\<rparr>)"


section \<open>The proposal engine (proposal-engine.js)\<close>

subsection \<open>Customer specification\<close>

text \<open>
  The constructor's argument: every entry may be missing (\<open>None\<close> is \<open>undefined\<close>),
  and \<open>feedWater\<close>, \<open>targetQuality\<close>, \<open>constraints\<close>, \<open>esgPriorities\<close> and
  \<open>vendorPreferences\<close> may be missing as a whole (they are read with \<open>?.\<close>).
\<close>

record waterData =
  wd_tds :: "jsnum option"
  wd_tss :: "jsnum option"
  wd_bod :: "jsnum option"
  wd_cod :: "jsnum option"
  wd_ph :: "jsnum option"

record qualityData =
  qd_tds :: "jsnum option"
  qd_tss :: "jsnum option"
  qd_bod :: "jsnum option"
  qd_cod :: "jsnum option"

record constraintsData =
  cd_maxFootprint :: "jsnum option"
  cd_maxPower :: "jsnum option"
  cd_maxCapex :: "jsnum option"
  cd_containerized :: "bool option"
  cd_allowedChemicals :: "string list option"

record prioritiesData =
  pd_water :: "jsnum option"
  pd_carbon :: "jsnum option"
  pd_energy :: "jsnum option"

record vendorData =
  vd_include :: "string list option"
  vd_exclude :: "string list option"

record specData =
  d_sector :: "string option"
  d_flowRate :: "jsnum option"
  d_operatingHours :: "jsnum option"
  d_feedWater :: "waterData option"
  d_targetQuality :: "qualityData option"
  d_constraints :: "constraintsData option"
  d_optionalModules :: "string list option"
  d_esgPriorities :: "prioritiesData option"
  d_vendorPreferences :: "vendorData option"

text \<open>\<open>obj?.field\<close>, and \<open>x || d\<close> for a Number, a string, a boolean and an array.\<close>

definition opt :: "'r option \<Rightarrow> ('r \<Rightarrow> 'a option) \<Rightarrow> 'a option" where
  "opt obj f = (case obj of None \<Rightarrow> None | Some r \<Rightarrow> f r)"

definition num_or :: "jsnum option \<Rightarrow> jsnum \<Rightarrow> jsnum" where
  "num_or x d = (case x of None \<Rightarrow> d | Some v \<Rightarrow> or_else v d)"

definition num_or_null :: "jsnum option \<Rightarrow> jsnum option" where
  "num_or_null x = (case x of None \<Rightarrow> None | Some v \<Rightarrow> if truthy v then Some v else None)"

definition str_or :: "string option \<Rightarrow> string \<Rightarrow> string" where
  "str_or x d = (case x of None \<Rightarrow> d | Some v \<Rightarrow> if v = [] then d else v)"

definition bool_or :: "bool option \<Rightarrow> bool \<Rightarrow> bool" where
  "bool_or x d = (case x of None \<Rightarrow> d | Some v \<Rightarrow> v \<or> d)"

definition array_or :: "'a list option \<Rightarrow> 'a list \<Rightarrow> 'a list" where
  "array_or x d = (case x of None \<Rightarrow> d | Some v \<Rightarrow> v)"

record water =
  w_tds :: jsnum
  w_tss :: jsnum
  w_bod :: jsnum
  w_cod :: jsnum
  w_ph :: jsnum

record quality =
  q_tds :: jsnum
  q_tss :: jsnum
  q_bod :: jsnum
  q_cod :: jsnum

record constraints =
  k_maxFootprint :: "jsnum option"
  k_maxPower :: "jsnum option"
  k_maxCapex :: "jsnum option"
  containerized :: bool
  allowedChemicals :: "string list"

record priorities =
  e_water :: jsnum
  e_carbon :: jsnum
  e_energy :: jsnum

record vendors =
  v_include :: "string list"
  v_exclude :: "string list"

record CustomerSpec =
  spec_sector :: string
  flowRate :: jsnum
  operatingHours :: jsnum
  feedWater :: water
  targetQuality :: quality
  spec_constraints :: constraints
  optionalModules :: "string list"
  esgPriorities :: priorities
  vendorPreferences :: vendors

text \<open>The constructor.\<close>

definition new_CustomerSpec :: "specData \<Rightarrow> CustomerSpec" where
  "new_CustomerSpec data =
     \<lparr>spec_sector = str_or (d_sector data) ''pharmaceutical'',
      flowRate = num_or (d_flowRate data) (Num 100),
      operatingHours = num_or (d_operatingHours data) (Num 8000),
      feedWater =
        \<lparr>w_tds = num_or (opt (d_feedWater data) wd_tds) (Num 1500),
         w_tss = num_or (opt (d_feedWater data) wd_tss) (Num 50),
         w_bod = num_or (opt (d_feedWater data) wd_bod) (Num 120),
         w_cod = num_or (opt (d_feedWater data) wd_cod) (Num 200),
         w_ph = num_or (opt (d_feedWater data) wd_ph) (Num 7.2)\<rparr>,
      targetQuality =
        \<lparr>q_tds = num_or (opt (d_targetQuality data) qd_tds) (Num 10),
         q_tss = num_or (opt (d_targetQuality data) qd_tss) (Num 0.1),
         q_bod = num_or (opt (d_targetQuality data) qd_bod) (Num 1),
         q_cod = num_or (opt (d_targetQuality data) qd_cod) (Num 5)\<rparr>,
      spec_constraints =
        \<lparr>k_maxFootprint = num_or_null (opt (d_constraints data) cd_maxFootprint),
         k_maxPower = num_or_null (opt (d_constraints data) cd_maxPower),
         k_maxCapex = num_or_null (opt (d_constraints data) cd_maxCapex),
         containerized = bool_or (opt (d_constraints data) cd_containerized) False,
         allowedChemicals = array_or (opt (d_constraints data) cd_allowedChemicals) [''all'']\<rparr>,
      optionalModules = array_or (d_optionalModules data) [''UV'', ''chemicalDosing''],
      esgPriorities =
        \<lparr>e_water = num_or (opt (d_esgPriorities data) pd_water) (Num 0.40),
         e_carbon = num_or (opt (d_esgPriorities data) pd_carbon) (Num 0.35),
         e_energy = num_or (opt (d_esgPriorities data) pd_energy) (Num 0.25)\<rparr>,
      vendorPreferences =
        \<lparr>v_include = array_or (opt (d_vendorPreferences data) vd_include) [],
         v_exclude = array_or (opt (d_vendorPreferences data) vd_exclude) []\<rparr>\<rparr>"

record required =
  req_tds :: jsnum
  req_tss :: jsnum
  req_bod :: jsnum
  req_cod :: jsnum

definition getRequiredRemoval :: "CustomerSpec \<Rightarrow> required" where
  "getRequiredRemoval spec =
     \<lparr>req_tds = Num 1 - (q_tds (targetQuality spec) / w_tds (feedWater spec)),
      req_tss = Num 1 - (q_tss (targetQuality spec) / w_tss (feedWater spec)),
      req_bod = Num 1 - (q_bod (targetQuality spec) / w_bod (feedWater spec)),
      req_cod = Num 1 - (q_cod (targetQuality spec) / w_cod (feedWater spec))\<rparr>"

definition getAnnualVolume :: "CustomerSpec \<Rightarrow> jsnum" where
  "getAnnualVolume spec = flowRate spec * operatingHours spec"

record validation =
  valid :: bool
  errors :: "string list"

definition validate :: "CustomerSpec \<Rightarrow> validation" where
  "validate spec =
     (let errors = [];
          errors = (if flowRate spec \<le> Num 0 then errors @ [''Flow rate must be positive'']
                    else errors);
          errors = (if w_tds (feedWater spec) < q_tds (targetQuality spec)
                    then errors @ [''Target TDS exceeds feed TDS''] else errors);
          errors = (if w_tss (feedWater spec) < q_tss (targetQuality spec)
                    then errors @ [''Target TSS exceeds feed TSS''] else errors)
      in \<lparr>valid = (length errors = 0), errors = errors\<rparr>)"


subsection \<open>Solution engine\<close>

text \<open>
  An entry of the decision trail. The timestamp (the wall clock) is left out, and the
  reason keeps the numbers that the source formats into its text with \<open>toFixed(1)\<close>:
  achieved TDS and TSS percentages for an included chain, achieved and required TDS
  percentages for an excluded one.
\<close>

datatype reason = MeetsAll jsnum jsnum | DoesNotMeet jsnum jsnum

record decisionEntry =
  action :: string
  reason :: reason

definition logDecision :: "decisionEntry list \<Rightarrow> string \<Rightarrow> reason \<Rightarrow> decisionEntry list" where
  "logDecision decisions a r = decisions @ [\<lparr>action = a, reason = r\<rparr>]"

text \<open>
  \<open>filterFeasibleChains\<close> is \<open>TECH_CHAINS.filter\<close> with a callback that also logs:
  the function below runs the callback over a list of chains, threading the trail.
\<close>

fun filterChains ::
  "required \<Rightarrow> chain list \<Rightarrow> decisionEntry list \<Rightarrow> chain list \<times> decisionEntry list" where
  "filterChains req [] decisions = ([], decisions)"
| "filterChains req (ch # rest) decisions =
     (let perf = calculateChainPerformance (c_techs ch);
          meetsTds = (req_tds req \<le> p_tdsRemoval perf);
          meetsTss = (req_tss req \<le> p_tssRemoval perf);
          meetsBod = (req_bod req \<le> p_bodRemoval perf)
      in if meetsTds \<and> meetsTss \<and> meetsBod
         then (let (kept, decisions') =
                     filterChains req rest
                       (logDecision decisions (''Included '' @ c_name ch)
                          (MeetsAll (p_tdsRemoval perf * Num 100) (p_tssRemoval perf * Num 100)))
               in (ch # kept, decisions'))
         else filterChains req rest
                (logDecision decisions (''Excluded '' @ c_name ch)
                   (DoesNotMeet (p_tdsRemoval perf * Num 100) (req_tds req * Num 100))))"

definition filterFeasibleChains :: "CustomerSpec \<Rightarrow> chain list \<times> decisionEntry list" where
  "filterFeasibleChains spec = filterChains (getRequiredRemoval spec) TECH_CHAINS []"

definition calculateCapex :: "CustomerSpec \<Rightarrow> performance \<Rightarrow> string list \<Rightarrow> jsnum" where
  "calculateCapex spec perf chainTechs =
     (let baseEquipmentCost = Num 5000;
          capex = flowRate spec * baseEquipmentCost * p_capexFactor perf;
          capex = capex * (if containerized (spec_constraints spec) then Num 1.15 else Num 1.25);
          capex = (if ''UV'' \<in> set (optionalModules spec) \<and> ''UV'' \<notin> set chainTechs
                   then capex + flowRate spec * Num 200 else capex)
      in Math_round capex)"

definition calculateOpex :: "CustomerSpec \<Rightarrow> performance \<Rightarrow> jsnum \<Rightarrow> jsnum" where
  "calculateOpex spec perf annualVolume =
     (let energyCost = p_energy perf * annualVolume * Num 0.15;
          chemicalCost = p_chemicals perf * annualVolume;
          maintenanceCost = flowRate spec * Num 5000 * p_capexFactor perf * p_maintenance perf;
          laborCost = Num 2000 * Num 45
      in Math_round (energyCost + chemicalCost + maintenanceCost + laborCost))"

text \<open>The loop over \<open>year = 1 .. CONFIG.projectLifespan\<close> (10), discount rate 0.08.\<close>

definition calculateNPV :: "jsnum \<Rightarrow> jsnum \<Rightarrow> jsnum" where
  "calculateNPV baseCapex annualOpex =
     Math_round
       (foldl (\<lambda>npv year.
                 let opex = annualOpex * Num (1.03 ^ (year - 1))
                 in npv + opex / Num ((1 + 0.08) ^ year))
          baseCapex [1 ..< Suc 10])"

record esgMetrics =
  em_waterRecovery :: jsnum
  waterScore :: jsnum
  annualCarbonTonnes :: jsnum
  carbonReduction :: jsnum
  carbonScore :: jsnum
  specificEnergy :: jsnum
  energyScore :: jsnum
  composite :: jsnum

definition calculateEsgMetrics :: "CustomerSpec \<Rightarrow> performance \<Rightarrow> jsnum \<Rightarrow> esgMetrics" where
  "calculateEsgMetrics spec perf annualVolume =
     (let waterRecovery = (if Num 0.9 < p_tdsRemoval perf then Num 0.82 else Num 0.95);
          waterScore = waterRecovery * Num 100;
          annualEnergy = p_energy perf * annualVolume;
          annualCarbonKg = annualEnergy * Num 0.233;
          annualCarbonTonnes = annualCarbonKg / Num 1000;
          baselineEnergy = Num 4.5 * annualVolume;
          baselineCarbonTonnes = (baselineEnergy * Num 0.233) / Num 1000;
          carbonReduction = Num 1 - (annualCarbonTonnes / baselineCarbonTonnes);
          carbonScore = carbonReduction * Num 100;
          baselineSpecificEnergy = Num 4.5;
          energyEfficiency = Num 1 - (p_energy perf / baselineSpecificEnergy);
          energyScore = Math_max (Num 0) (energyEfficiency * Num 100);
          composite = waterScore * e_water (esgPriorities spec)
                      + carbonScore * e_carbon (esgPriorities spec)
                      + energyScore * e_energy (esgPriorities spec)
      in \<lparr>em_waterRecovery = waterRecovery, waterScore = Math_round waterScore,
          annualCarbonTonnes = Math_round annualCarbonTonnes,
          carbonReduction = carbonReduction, carbonScore = Math_round carbonScore,
          specificEnergy = p_energy perf, energyScore = Math_round energyScore,
          composite = Math_round composite\<rparr>)"

text \<open>
  \<open>INDUSTRY_PRESETS[this.spec.sector]\<close> is a property read like the one on
  \<open>TECHNOLOGIES\<close>. For a sector that names an inherited property the value found is
  truthy and has no \<open>preferredChains\<close>, so \<open>.includes\<close> fails with a \<open>TypeError\<close>.
\<close>

definition engineConfidence :: "CustomerSpec \<Rightarrow> performance \<Rightarrow> chain \<Rightarrow> js_error + jsnum" where
  "engineConfidence spec perf ch =
     (let requiredRemoval = getRequiredRemoval spec;
          confidence = Num 0.7;
          tdsMargin = (p_tdsRemoval perf - req_tds requiredRemoval) / req_tds requiredRemoval;
          rest = (\<lambda>confidence.
                   let confidence = confidence + Math_min (Num 0.1) (tdsMargin * Num 0.5);
                       confidence = (if \<forall>t \<in> set (c_techs ch). t \<in> set [''UF'', ''RO'', ''MBR'']
                                     then confidence + Num 0.05 else confidence)
                   in Math_min (Num 0.95) confidence)
      in case map_of INDUSTRY_PRESETS (spec_sector spec) of
           Some preferredChains \<Rightarrow>
             Inr (rest (if c_name ch \<in> set preferredChains then confidence + Num 0.15
                        else confidence))
         | None \<Rightarrow>
             if spec_sector spec \<in> set Object_prototype_keys then Inl TypeError
             else Inr (rest confidence))"

definition calculateScore :: "jsnum \<Rightarrow> jsnum \<Rightarrow> esgMetrics \<Rightarrow> jsnum \<Rightarrow> jsnum" where
  "calculateScore baseCapex annualOpex esgMetrics confidence =
     (let maxCapex = Num 3000000;
          maxOpex = Num 500000;
          costScore = Num 1 - ((baseCapex / maxCapex + annualOpex / maxOpex) / Num 2);
          esgScore = composite esgMetrics / Num 100
      in costScore * Num 0.4 + esgScore * Num 0.35 + confidence * Num 0.25)"

record candidate =
  cand_chain :: chain
  cand_techs :: "string list"
  cand_name :: string
  cand_description :: string
  cand_performance :: performance
  cand_capex :: jsnum
  cand_opex :: jsnum
  npv10yr :: jsnum
  waterRecovery :: jsnum
  cand_esgMetrics :: esgMetrics
  cand_esgScore :: jsnum
  cand_confidence :: jsnum
  cand_score :: jsnum
  meetsRequirements :: bool

definition evaluateSolution :: "CustomerSpec \<Rightarrow> chain \<Rightarrow> js_error + candidate" where
  "evaluateSolution spec ch =
     (let perf = calculateChainPerformance (c_techs ch);
          annualVolume = getAnnualVolume spec;
          baseCapex = calculateCapex spec perf (c_techs ch);
          annualOpex = calculateOpex spec perf annualVolume;
          esgMetrics = calculateEsgMetrics spec perf annualVolume;
          waterRecovery = (if ''RO'' \<in> set (c_techs ch) then Num 0.82 else Num 0.95)
      in case engineConfidence spec perf ch of
           Inl e \<Rightarrow> Inl e
         | Inr confidence \<Rightarrow>
             Inr \<lparr>cand_chain = ch, cand_techs = c_techs ch, cand_name = c_name ch,
                  cand_description = c_description ch, cand_performance = perf,
                  cand_capex = baseCapex, cand_opex = annualOpex,
                  npv10yr = calculateNPV baseCapex annualOpex,
                  waterRecovery = waterRecovery, cand_esgMetrics = esgMetrics,
                  cand_esgScore = composite esgMetrics, cand_confidence = confidence,
                  cand_score = calculateScore baseCapex annualOpex esgMetrics confidence,
                  meetsRequirements = True\<rparr>)"

text \<open>\<open>feasibleChains.map(chain => this.evaluateSolution(chain))\<close>: the first failure ends it.\<close>

fun mapM :: "('a \<Rightarrow> js_error + 'b) \<Rightarrow> 'a list \<Rightarrow> js_error + 'b list" where
  "mapM f [] = Inr []"
| "mapM f (x # xs) =
     (case f x of
        Inl e \<Rightarrow> Inl e
      | Inr y \<Rightarrow> (case mapM f xs of Inl e \<Rightarrow> Inl e | Inr ys \<Rightarrow> Inr (y # ys)))"

definition generateSolutions :: "CustomerSpec \<Rightarrow> js_error + (candidate list \<times> decisionEntry list)" where
  "generateSolutions spec =
     (let (feasibleChains, decisions) = filterFeasibleChains spec
      in case mapM (evaluateSolution spec) feasibleChains of
           Inl e \<Rightarrow> Inl e
         | Inr solutions \<Rightarrow>
             Inr (sortBy (\<lambda>a b. cand_score b - cand_score a) solutions, decisions))"


subsection \<open>Pricing model\<close>

definition calculatePrice :: "candidate \<Rightarrow> real \<Rightarrow> jsnum" where
  "calculatePrice sol margin = Math_round (cand_capex sol * Num (1 + margin))"

definition calculateWinProbability :: "candidate \<Rightarrow> jsnum \<Rightarrow> jsnum" where
  "calculateWinProbability sol price =
     (let priceRatio = price / cand_capex sol;
          z = Num 3 - (priceRatio - Num 1) * Num 10
              + (cand_confidence sol - Num 0.7) * Num 5
              + (cand_esgScore sol / Num 100 - Num 0.7) * Num 3
      in Num 1 / (Num 1 + Math_exp (- z)))"


text \<open>
  The loop \<open>for (margin = 0.10; margin <= 0.40; margin += 0.01)\<close> of
  \<open>findOptimalPrice\<close>, with the pair \<open>(bestPrice, bestExpectedValue)\<close> as its state.
  The counter \<open>margin\<close> is a double: it starts at the double \<open>0.10\<close>, is compared with
  the double \<open>0.40\<close> and is advanced by the rounded sum with the double \<open>0.01\<close>. A loop
  on a double counter need not end (from a large negative start the sum rounds back to
  the counter), so the loop is a partial function: \<open>None\<close> is a loop that does not return.
\<close>

partial_function (option) marginLoop ::
  "candidate \<Rightarrow> real \<Rightarrow> jsnum \<times> jsnum \<Rightarrow> (jsnum \<times> jsnum) option" where
  "marginLoop sol margin best =
     (if margin \<le> double 0.40
      then (case best of (bestPrice, bestExpectedValue) \<Rightarrow>
              let price = calculatePrice sol margin;
                  winProb = calculateWinProbability sol price;
                  expectedValue = winProb * (price - cand_capex sol)
              in marginLoop sol (double (margin + double 0.01))
                   (if bestExpectedValue < expectedValue then (price, expectedValue)
                    else (bestPrice, bestExpectedValue)))
      else Some best)"

text \<open>The margins the loop tests, starting from \<open>margin\<close>: the same loop, collecting its counter.\<close>

partial_function (option) marginsTested :: "real \<Rightarrow> real list option" where
  "marginsTested margin =
     (if margin \<le> double 0.40
      then Option.bind (marginsTested (double (margin + double 0.01)))
             (\<lambda>rest. Some (margin # rest))
      else Some [])"

record priceResult =
  pr_price :: jsnum
  pr_margin :: jsnum
  winProbability :: jsnum
  expectedValue :: jsnum

definition findOptimalPrice :: "candidate \<Rightarrow> priceResult option" where
  "findOptimalPrice sol =
     (case marginLoop sol (double 0.10) (cand_capex sol * Num 1.1, Num 0) of
        None \<Rightarrow> None
      | Some (bestPrice, bestExpectedValue) \<Rightarrow>
          Some \<lparr>pr_price = bestPrice,
                pr_margin = (bestPrice / cand_capex sol) - Num 1,
                winProbability = calculateWinProbability sol bestPrice,
                expectedValue = bestExpectedValue\<rparr>)"

subsection \<open>The main entry point\<close>

text \<open>
  \<open>generateProposal\<close>: a rejected promise is an \<open>Inl\<close>, and \<open>None\<close> is a call that
  does not return (the margin loop is its only loop). Of the value returned the model
  keeps the specification, the five best solutions, the selected solution, the
  recommended price and the decision trail; the cost breakdowns, the pricing options and
  the rendered HTML and JSON documents are derived from the selected solution.
\<close>

fun join :: "string \<Rightarrow> string list \<Rightarrow> string" where
  "join sep [] = []"
| "join sep [x] = x"
| "join sep (x # y # ys) = x @ sep @ join sep (y # ys)"

record proposal =
  prop_specification :: CustomerSpec
  prop_solutions :: "candidate list"
  selectedSolution :: candidate
  recommended :: priceResult
  decisionTrail :: "decisionEntry list"

definition generateProposal :: "specData \<Rightarrow> (js_error + proposal) option" where
  "generateProposal inputData =
     (let spec = new_CustomerSpec inputData;
          validation = validate spec
      in if \<not> valid validation
         then Some (Inl (Error (''Invalid specification: '' @ join '', '' (errors validation))))
         else case generateSolutions spec of
                Inl e \<Rightarrow> Some (Inl e)
              | Inr (solutions, decisions) \<Rightarrow>
                  (case solutions of
                     [] \<Rightarrow>
                       Some (Inl (Error ''No feasible solutions found for the given requirements''))
                   | best # _ \<Rightarrow>
                       (case findOptimalPrice best of
                          None \<Rightarrow> None
                        | Some price \<Rightarrow>
                            Some (Inr \<lparr>prop_specification = spec,
                                       prop_solutions = take 5 solutions,
                                       selectedSolution = best, recommended = price,
                                       decisionTrail = decisions\<rparr>))))"


section \<open>Auxiliary predicates and example inputs\<close>

text \<open>All four removal fractions of a combined performance lie in \<open>[0,1]\<close>.\<close>

definition fractionsOk :: "performance \<Rightarrow> bool" where
  "fractionsOk p = (unitFraction (p_tssRemoval p) \<and> unitFraction (p_tdsRemoval p) \<and>
     unitFraction (p_bodRemoval p) \<and> unitFraction (p_codRemoval p))"

text \<open>The removal test of the callback of \<open>filterFeasibleChains\<close>, for one chain.\<close>

definition meetsRemoval :: "required \<Rightarrow> chain \<Rightarrow> bool" where
  "meetsRemoval req ch =
     (req_tds req \<le> p_tdsRemoval (calculateChainPerformance (c_techs ch))
      \<and> req_tss req \<le> p_tssRemoval (calculateChainPerformance (c_techs ch))
      \<and> req_bod req \<le> p_bodRemoval (calculateChainPerformance (c_techs ch)))"

text \<open>
  A form filled in for a flow of 100 cubic metres per hour with a budget of 1000 pounds, which no chain
  meets (the cheapest chain costs 100000 pounds).
\<close>

definition overBudgetInputs :: inputs where
  "overBudgetInputs =
     \<lparr>sector = NaN, flow = Num 100, hours = Num 8000, tss = Num 150, tds = Num 1500,
      bod = Num 120, cod = Num 200, tssTarget = Num 5, tdsTarget = Num 50,
      waterPriority = Num 0.4, carbonPriority = Num 0.35, energyPriority = Num 0.25,
      maxFootprint = Num 500, maxBudget = Num 1000\<rparr>"


text \<open>
  The constructor's argument \<open>{}\<close>, and variants of it: a BOD target of 5 above a BOD
  feed of 1; a TDS target of 600 above a TDS feed of 500 (scenario C); a TDS feed of 0.
\<close>

definition emptyData :: specData where
  "emptyData =
     \<lparr>d_sector = None, d_flowRate = None, d_operatingHours = None, d_feedWater = None,
      d_targetQuality = None, d_constraints = None, d_optionalModules = None,
      d_esgPriorities = None, d_vendorPreferences = None\<rparr>"

definition noWater :: waterData where
  "noWater = \<lparr>wd_tds = None, wd_tss = None, wd_bod = None, wd_cod = None, wd_ph = None\<rparr>"

definition noQuality :: qualityData where
  "noQuality = \<lparr>qd_tds = None, qd_tss = None, qd_bod = None, qd_cod = None\<rparr>"

definition bodData :: specData where
  "bodData = emptyData\<lparr>d_feedWater := Some (noWater\<lparr>wd_bod := Some (Num 1)\<rparr>),
                        d_targetQuality := Some (noQuality\<lparr>qd_bod := Some (Num 5)\<rparr>)\<rparr>"

definition scenarioC :: specData where
  "scenarioC = emptyData\<lparr>d_feedWater := Some (noWater\<lparr>wd_tds := Some (Num 500)\<rparr>),
                          d_targetQuality := Some (noQuality\<lparr>qd_tds := Some (Num 600)\<rparr>)\<rparr>"

definition zeroFeedData :: specData where
  "zeroFeedData = emptyData\<lparr>d_feedWater := Some (noWater\<lparr>wd_tds := Some (Num 0)\<rparr>)\<rparr>"


text \<open>The action text that \<open>filterFeasibleChains\<close> logs for a chain.\<close>

definition decisionLabel :: "required \<Rightarrow> chain \<Rightarrow> string" where
  "decisionLabel req ch =
     (if meetsRemoval req ch then ''Included '' else ''Excluded '') @ c_name ch"

text \<open>
  One round of the loop of \<open>findOptimalPrice\<close> as a function of the state and the
  margin, and the invariant of the loop: the best price and the best expected value are
  finite, the price is not below the capital cost, the value is not negative and not
  above the expected value at the best price.
\<close>

definition priceStep :: "candidate \<Rightarrow> jsnum \<times> jsnum \<Rightarrow> real \<Rightarrow> jsnum \<times> jsnum" where
  "priceStep sol best margin =
     (let price = calculatePrice sol margin;
          expectedValue = calculateWinProbability sol price * (price - cand_capex sol)
      in if snd best < expectedValue then (price, expectedValue) else best)"


text \<open>A candidate for the chain UF + RO at 100 cubic metres per hour.\<close>

definition sampleCandidate :: candidate where
  "sampleCandidate =
     \<lparr>cand_chain = \<lparr>c_techs = [''UF'', ''RO''], c_name = ''UF + RO'',
                     c_description = ''Standard high-purity treatment''\<rparr>,
      cand_techs = [''UF'', ''RO''], cand_name = ''UF + RO'',
      cand_description = ''Standard high-purity treatment'',
      cand_performance = calculateChainPerformance [''UF'', ''RO''],
      cand_capex = Num 2020000, cand_opex = Num 554000, npv10yr = Num 6193000,
      waterRecovery = Num 0.82,
      cand_esgMetrics =
        \<lparr>em_waterRecovery = Num 0.82, waterScore = Num 82, annualCarbonTonnes = Num 522,
         carbonReduction = Num (17 / 45), carbonScore = Num 38, specificEnergy = Num 2.8,
         energyScore = Num 38, composite = Num 56\<rparr>,
      cand_esgScore = Num 56, cand_confidence = Num 0.85, cand_score = Num 0.5,
      meetsRequirements = True\<rparr>"


text \<open>
  The doubles \<open>0.1\<close>, \<open>0.11\<close>, \<open>0.12\<close>, ..., \<open>0.39000000000000024\<close> as fractions:
  the values the counter of the margin loop takes (lemma \<open>marginsTested_grid\<close> below).
\<close>

definition doubleGrid :: "real list" where
  "doubleGrid =
     [3602879701896397 / 2 ^ 55,
      7926335344172073 / 2 ^ 56,
      1080863910568919 / 2 ^ 53,
      1170935903116329 / 2 ^ 53,
      1261007895663739 / 2 ^ 53,
      1351079888211149 / 2 ^ 53,
      1441151880758559 / 2 ^ 53,
      1531223873305969 / 2 ^ 53,
      1621295865853379 / 2 ^ 53,
      1711367858400789 / 2 ^ 53,
      1801439850948199 / 2 ^ 53,
      1891511843495609 / 2 ^ 53,
      1981583836043019 / 2 ^ 53,
      2071655828590429 / 2 ^ 53,
      2161727821137839 / 2 ^ 53,
      2251799813685249 / 2 ^ 53,
      2341871806232659 / 2 ^ 53,
      2431943798780069 / 2 ^ 53,
      2522015791327479 / 2 ^ 53,
      2612087783874889 / 2 ^ 53,
      2702159776422299 / 2 ^ 53,
      2792231768969709 / 2 ^ 53,
      2882303761517119 / 2 ^ 53,
      2972375754064529 / 2 ^ 53,
      3062447746611939 / 2 ^ 53,
      3152519739159349 / 2 ^ 53,
      3242591731706759 / 2 ^ 53,
      3332663724254169 / 2 ^ 53,
      3422735716801579 / 2 ^ 53,
      3512807709348989 / 2 ^ 53]"



section \<open>Properties of the chain composer\<close>

lemma unitFraction_Num [simp]: "unitFraction (Num r) = (0 \<le> r \<and> r \<le> 1)"
  by (simp add: unitFraction_def)

lemma unitFraction_cases: "unitFraction x \<Longrightarrow> \<exists>r. x = Num r \<and> 0 \<le> r \<and> r \<le> 1"
  by (cases x) (simp_all add: unitFraction_def)

lemma unitFraction_refl: "unitFraction x \<Longrightarrow> x \<le> x"
  by (auto dest!: unitFraction_cases)

text \<open>Serial composition \<open>1 - (1 - a)(1 - r)\<close> stays in the unit interval and is at least \<open>a\<close>.\<close>

lemma serial_unit:
  assumes "unitFraction a" "unitFraction r"
  shows "unitFraction (Num 1 - (Num 1 - a) * (Num 1 - r))"
    and "a \<le> Num 1 - (Num 1 - a) * (Num 1 - r)"
proof -
  from assms obtain x y where a: "a = Num x" "0 \<le> x" "x \<le> 1" and r: "r = Num y" "0 \<le> y" "y \<le> 1"
    by (auto dest!: unitFraction_cases)
  have p: "0 \<le> (1 - x) * (1 - y)" using a r by simp
  have q: "(1 - x) * (1 - y) \<le> 1 * 1" using a r by (intro mult_mono) simp_all
  show "unitFraction (Num 1 - (Num 1 - a) * (Num 1 - r))" using p q by (simp add: a r)
  have "(1 - x) * (1 - y) \<le> (1 - x) * 1" using a r by (intro mult_left_mono) simp_all
  then show "a \<le> Num 1 - (Num 1 - a) * (Num 1 - r)" by (simp add: a r)
qed

lemma chainStep_fractions:
  assumes "fractionsInUnit t" "fractionsOk acc"
  shows "fractionsOk (chainStep acc t)"
    and "p_tssRemoval acc \<le> p_tssRemoval (chainStep acc t)"
    and "p_tdsRemoval acc \<le> p_tdsRemoval (chainStep acc t)"
    and "p_bodRemoval acc \<le> p_bodRemoval (chainStep acc t)"
    and "p_codRemoval acc \<le> p_codRemoval (chainStep acc t)"
proof -
  have all: "fractionsOk (chainStep acc t)
    \<and> p_tssRemoval acc \<le> p_tssRemoval (chainStep acc t)
    \<and> p_tdsRemoval acc \<le> p_tdsRemoval (chainStep acc t)
    \<and> p_bodRemoval acc \<le> p_bodRemoval (chainStep acc t)
    \<and> p_codRemoval acc \<le> p_codRemoval (chainStep acc t)"
  proof (cases "TECHNOLOGIES_get t = Undefined")
    case True
    with assms(2) show ?thesis
      by (simp add: chainStep_def fractionsOk_def unitFraction_refl)
  next
    case False
    with assms(1) have
      "unitFraction (field t_tssRemoval (TECHNOLOGIES_get t))"
      "unitFraction (field t_tdsRemoval (TECHNOLOGIES_get t))"
      "unitFraction (field t_bodRemoval (TECHNOLOGIES_get t))"
      "unitFraction (field t_codRemoval (TECHNOLOGIES_get t))"
      by (simp_all add: fractionsInUnit_def Let_def)
    with assms(2) False show ?thesis
      by (simp add: chainStep_def fractionsOk_def Let_def serial_unit)
  qed
  then show "fractionsOk (chainStep acc t)"
    and "p_tssRemoval acc \<le> p_tssRemoval (chainStep acc t)"
    and "p_tdsRemoval acc \<le> p_tdsRemoval (chainStep acc t)"
    and "p_bodRemoval acc \<le> p_bodRemoval (chainStep acc t)"
    and "p_codRemoval acc \<le> p_codRemoval (chainStep acc t)"
    by simp_all
qed

lemma foldl_chainStep_fractions:
  "\<forall>t \<in> set ts. fractionsInUnit t \<Longrightarrow> fractionsOk acc \<Longrightarrow> fractionsOk (foldl chainStep acc ts)"
  by (induction ts arbitrary: acc) (simp_all add: chainStep_fractions)

text \<open>The running totals do not depend on the \<open>techs\<close> entry that is carried along.\<close>

lemma chainStep_techs: "chainStep (acc\<lparr>p_techs := x\<rparr>) t = (chainStep acc t)\<lparr>p_techs := x\<rparr>"
  by (simp add: chainStep_def Let_def)

lemma foldl_chainStep_techs:
  "foldl chainStep (acc\<lparr>p_techs := x\<rparr>) ts = (foldl chainStep acc ts)\<lparr>p_techs := x\<rparr>"
  by (induction ts arbitrary: acc) (simp_all add: chainStep_techs)

lemma calculateChainPerformance_snoc:
  "calculateChainPerformance (ts @ [t]) =
     (chainStep (calculateChainPerformance ts) t)\<lparr>p_techs := ts @ [t]\<rparr>"
proof -
  let ?i = "\<lambda>x. \<lparr>p_techs = x, p_tssRemoval = Num 0, p_tdsRemoval = Num 0, p_bodRemoval = Num 0,
        p_codRemoval = Num 0, p_energy = Num 0, p_footprint = Num 0, p_capexFactor = Num 0,
        p_maintenance = Num 0, p_chemicals = Num 0\<rparr>"
  have "?i (ts @ [t]) = (?i ts)\<lparr>p_techs := ts @ [t]\<rparr>" by simp
  then have "foldl chainStep (?i (ts @ [t])) ts = (foldl chainStep (?i ts) ts)\<lparr>p_techs := ts @ [t]\<rparr>"
    by (simp only: foldl_chainStep_techs)
  then show ?thesis
    by (simp add: calculateChainPerformance_def chainStep_techs)
qed

lemma calculateChainPerformance_fractions:
  "\<forall>t \<in> set ts. fractionsInUnit t \<Longrightarrow> fractionsOk (calculateChainPerformance ts)"
  unfolding calculateChainPerformance_def
  by (rule foldl_chainStep_fractions) (simp_all add: fractionsOk_def)

lemma own_fractions:
  "map_of TECHNOLOGIES k = Some t \<Longrightarrow>
   0 \<le> t_tssRemoval t \<and> t_tssRemoval t \<le> 1 \<and> 0 \<le> t_tdsRemoval t \<and> t_tdsRemoval t \<le> 1 \<and>
   0 \<le> t_bodRemoval t \<and> t_bodRemoval t \<le> 1 \<and> 0 \<le> t_codRemoval t \<and> t_codRemoval t \<le> 1"
  by (auto simp: TECHNOLOGIES_def mk_tech_def split: if_splits)

text \<open>
  Every technology of the registry has its fractions in \<open>[0,1]\<close>; the identifiers whose
  fractions are not are exactly the names inherited from \<open>Object.prototype\<close>.
\<close>

lemma fractionsInUnit_iff: "fractionsInUnit k \<longleftrightarrow> TECHNOLOGIES_get k \<noteq> Inherited"
  by (auto simp: fractionsInUnit_def TECHNOLOGIES_get_def Let_def unitFraction_def
       dest: own_fractions split: option.splits)

text \<open>
  C4. For every chain of technology identifiers whose per-technology removal fractions lie
  in \<open>[0,1]\<close>, each of the four combined removal fractions (TSS, TDS, BOD, COD) computed by
  \<open>calculateChainPerformance\<close> lies in \<open>[0,1]\<close>, and appending a further such technology
  to the chain does not decrease any of them.
\<close>

theorem chain_removal_bounded_and_monotone:
  assumes "\<forall>t \<in> set techIds. fractionsInUnit t" and "fractionsInUnit techId"
  shows "unitFraction (p_tssRemoval (calculateChainPerformance techIds))
       \<and> unitFraction (p_tdsRemoval (calculateChainPerformance techIds))
       \<and> unitFraction (p_bodRemoval (calculateChainPerformance techIds))
       \<and> unitFraction (p_codRemoval (calculateChainPerformance techIds))
       \<and> p_tssRemoval (calculateChainPerformance techIds)
           \<le> p_tssRemoval (calculateChainPerformance (techIds @ [techId]))
       \<and> p_tdsRemoval (calculateChainPerformance techIds)
           \<le> p_tdsRemoval (calculateChainPerformance (techIds @ [techId]))
       \<and> p_bodRemoval (calculateChainPerformance techIds)
           \<le> p_bodRemoval (calculateChainPerformance (techIds @ [techId]))
       \<and> p_codRemoval (calculateChainPerformance techIds)
           \<le> p_codRemoval (calculateChainPerformance (techIds @ [techId]))"
proof -
  have ok: "fractionsOk (calculateChainPerformance techIds)"
    using assms(1) by (rule calculateChainPerformance_fractions)
  from chainStep_fractions(2-5)[OF assms(2) ok] ok show ?thesis
    by (simp add: calculateChainPerformance_snoc fractionsOk_def)
qed

theorem chain_removal_bounded_and_monotone_witness:
  "fractionsInUnit ''UF'' \<and> fractionsInUnit ''RO'' \<and> fractionsInUnit ''UV''
   \<and> unitFraction (p_tdsRemoval (calculateChainPerformance [''UF'', ''RO'']))
   \<and> p_tdsRemoval (calculateChainPerformance [''UF'', ''RO''])
       \<le> p_tdsRemoval (calculateChainPerformance ([''UF'', ''RO''] @ [''UV'']))"
proof -
  have h: "fractionsInUnit ''UF''" "fractionsInUnit ''RO''" "fractionsInUnit ''UV''"
    by (simp_all add: fractionsInUnit_iff TECHNOLOGIES_get_def TECHNOLOGIES_def)
  then have "\<forall>t \<in> set [''UF'', ''RO'']. fractionsInUnit t" by simp
  from chain_removal_bounded_and_monotone [OF this h(3)] h show ?thesis by simp
qed

text \<open>An identifier that the lookup does not find is skipped: the step changes nothing.\<close>

lemma chainStep_Undefined: "TECHNOLOGIES_get techId = Undefined \<Longrightarrow> chainStep acc techId = acc"
  by (simp add: chainStep_def)

text \<open>
  C10. \<open>calculateChainPerformance\<close> skips an identifier that is not in the technology
  registry, leaving the combined performance unchanged. The code does so only when the
  lookup \<open>TECHNOLOGIES[techId]\<close> yields \<open>undefined\<close>. The identifier \<open>constructor\<close> is not
  a technology, but the lookup finds the inherited \<open>Object.prototype.constructor\<close>; the
  guard \<open>if (!tech) return\<close> lets it through, and every combined metric becomes \<open>NaN\<close>
  instead of staying at the value of the empty chain.
\<close>

theorem calculateChainPerformance_inherited_key:
  "map_of TECHNOLOGIES ''constructor'' = None
   \<and> p_tssRemoval (calculateChainPerformance []) = Num 0
   \<and> p_tssRemoval (calculateChainPerformance [''constructor'']) = NaN
   \<and> p_tdsRemoval (calculateChainPerformance [''constructor'']) = NaN
   \<and> p_energy (calculateChainPerformance [''constructor'']) = NaN
   \<and> p_capexFactor (calculateChainPerformance [''constructor'']) = NaN
   \<and> p_tssRemoval (calculateChainPerformance [''UF'', ''constructor'']) = NaN"
  by (simp add: calculateChainPerformance_def chainStep_def TECHNOLOGIES_get_def
        TECHNOLOGIES_def Object_prototype_keys_def)

section \<open>Properties of the ledger hash\<close>

text \<open>
  C1. Two invocations of \<open>generateLedgerHash\<close> with identical inputs, the same selected
  solution and the timestamp held fixed return the same string. The code appends up to 48
  hexadecimal digits of \<open>Math.random()\<close> to the hash of the payload, so two invocations
  that agree on everything else (the serialiser, the timestamp, the inputs, the solution)
  and draw the random numbers 0.5 and 0.25 (in hexadecimal \<open>0.8\<close> and \<open>0.4\<close>) return
  different strings.
\<close>

theorem generateLedgerHash_random_suffix:
  "generateLedgerHash JSON_stringify Date_now ''0.8'' i s
     \<noteq> generateLedgerHash JSON_stringify Date_now ''0.4'' i s"
  by (simp add: generateLedgerHash_def substr_def Let_def)


section \<open>Properties of the specification intake\<close>

lemmas spec_defs = new_CustomerSpec_def emptyData_def noWater_def noQuality_def num_or_def
  num_or_null_def str_or_def bool_or_def array_or_def opt_def or_else_def

text \<open>
  C3, as stated: \<open>validate\<close> returns \<open>valid = false\<close> with an error for every quality
  parameter (TSS, TDS, BOD, COD) whose target exceeds its feed value. It fails for BOD: the
  specification built from a BOD feed of 1 and a BOD target of 5 is reported valid, with no
  error.
\<close>

theorem validate_misses_BOD:
  "w_bod (feedWater (new_CustomerSpec bodData)) < q_bod (targetQuality (new_CustomerSpec bodData))
   \<and> valid (validate (new_CustomerSpec bodData))
   \<and> errors (validate (new_CustomerSpec bodData)) = []"
  by (simp add: validate_def bodData_def spec_defs)

text \<open>
  C3, amended. \<open>validate\<close> checks three things, the flow rate (which must be strictly
  positive), the TDS target against the TDS feed and the TSS target against the TSS feed,
  and returns every violation found among them, not just the first: each of the three
  messages is in the error list exactly when its check fails, no other message is ever
  returned (BOD and COD are not checked), and \<open>valid\<close> is true exactly when the list is
  empty. In scenario C (TDS target 600, TDS feed 500, defaults otherwise) the result is
  \<open>valid = false\<close> with the single error naming TDS.
\<close>

theorem validate_reports_flow_tds_tss:
  "(''Flow rate must be positive'' \<in> set (errors (validate spec)) \<longleftrightarrow> flowRate spec \<le> Num 0)
   \<and> (''Target TDS exceeds feed TDS'' \<in> set (errors (validate spec))
        \<longleftrightarrow> w_tds (feedWater spec) < q_tds (targetQuality spec))
   \<and> (''Target TSS exceeds feed TSS'' \<in> set (errors (validate spec))
        \<longleftrightarrow> w_tss (feedWater spec) < q_tss (targetQuality spec))
   \<and> set (errors (validate spec))
        \<subseteq> {''Flow rate must be positive'', ''Target TDS exceeds feed TDS'',
            ''Target TSS exceeds feed TSS''}
   \<and> (valid (validate spec) \<longleftrightarrow> errors (validate spec) = [])
   \<and> validate (new_CustomerSpec scenarioC)
        = \<lparr>valid = False, errors = [''Target TDS exceeds feed TDS'']\<rparr>"
  by (auto simp add: validate_def scenarioC_def spec_defs Let_def)

text \<open>
  On finite inputs \<open>calculateRemovalNeeded\<close> returns finite numbers, \<open>1 - target/feed\<close>
  for a positive feed and \<open>0\<close> otherwise. The constructor never leaves a feed
  concentration of \<open>0\<close> (or \<open>NaN\<close>) in a specification: \<open>||\<close> puts the default in its
  place.
\<close>

lemma calculateRemovalNeeded_finite:
  assumes "tss i = Num a" "tssTarget i = Num b" "tds i = Num c" "tdsTarget i = Num d"
  shows "r_tss (calculateRemovalNeeded i) = Num (if 0 < a then 1 - b / a else 0)"
    and "r_tds (calculateRemovalNeeded i) = Num (if 0 < c then 1 - d / c else 0)"
  using assms by (simp_all add: calculateRemovalNeeded_def)

lemma truthy_num_or: "truthy d \<Longrightarrow> truthy (num_or x d)"
  by (simp add: num_or_def or_else_def split: option.splits)

lemma constructed_feed_truthy:
  "truthy (w_tds (feedWater (new_CustomerSpec d))) \<and> truthy (w_tss (feedWater (new_CustomerSpec d)))
   \<and> truthy (w_bod (feedWater (new_CustomerSpec d))) \<and> truthy (w_cod (feedWater (new_CustomerSpec d)))"
  by (simp add: new_CustomerSpec_def truthy_num_or)

text \<open>
  C7. Wherever a required removal rate is derived it is \<open>1 - target/feed\<close>, and \<open>0\<close> when
  the feed concentration is \<open>0\<close>. \<open>calculateRemovalNeeded\<close> does this (first conjunct).
  \<open>CustomerSpec.getRequiredRemoval\<close> has no such guard: for a specification constructed
  with a TDS feed of \<open>0\<close> the constructor's \<open>||\<close> replaces the feed by its default 1500,
  and the required TDS removal is \<open>1 - 10/1500 = 149/150\<close>, not \<open>0\<close>; and on a
  specification object whose TDS feed is \<open>0\<close> the division \<open>10 / 0\<close> is carried out and
  the required removal is \<open>-Infinity\<close>.
\<close>

theorem getRequiredRemoval_zero_feed:
  "r_tds (calculateRemovalNeeded (i\<lparr>tds := Num 0\<rparr>)) = Num 0
   \<and> w_tds (feedWater (new_CustomerSpec zeroFeedData)) = Num 1500
   \<and> req_tds (getRequiredRemoval (new_CustomerSpec zeroFeedData)) = Num (149 / 150)
   \<and> req_tds (getRequiredRemoval
        ((new_CustomerSpec emptyData)
           \<lparr>feedWater := (feedWater (new_CustomerSpec emptyData))\<lparr>w_tds := Num 0\<rparr>\<rparr>))
       = NegInf"
  by (simp add: calculateRemovalNeeded_def getRequiredRemoval_def zeroFeedData_def spec_defs)

section \<open>Properties of the simulator's evaluation\<close>

text \<open>Sorting returns a permutation.\<close>

lemma mset_insertBy: "mset (insertBy cmp a xs) = add_mset a (mset xs)"
  by (induction xs) simp_all

lemma mset_sortBy: "mset (sortBy cmp xs) = mset xs"
  by (induction xs) (simp_all add: sortBy_def mset_insertBy)

lemma set_sortBy: "set (sortBy cmp xs) = set xs"
  using mset_sortBy [of cmp xs] by (metis set_mset_mset)

lemma length_sortBy: "length (sortBy cmp xs) = length xs"
  using mset_sortBy [of cmp xs] by (metis size_mset)

lemma set_evaluateTechnologies:
  "set (evaluateTechnologies i) = evaluateChain i ` set TECH_CHAINS"
  by (simp add: evaluateTechnologies_def set_sortBy)

lemma feasible_evaluateChain:
  "feasible (evaluateChain i ch) = list_all pass (checkConstraints i (evaluateChain i ch))"
  by (simp add: evaluateChain_def checkConstraints_def Let_def)

text \<open>
  C5. For every input record and every solution produced by \<open>evaluateTechnologies\<close>,
  \<open>checkConstraints\<close> returns four checks (TSS removal, TDS removal, footprint, budget),
  and the solution's \<open>feasible\<close> flag is true if and only if all four have
  \<open>pass = true\<close>.
\<close>

theorem feasible_iff_all_checks_pass:
  assumes "s \<in> set (evaluateTechnologies i)"
  shows "length (checkConstraints i s) = 4
       \<and> map ck_name (checkConstraints i s)
           = [''TSS Removal'', ''TDS Removal'', ''Footprint'', ''Budget (CAPEX)'']
       \<and> (feasible s \<longleftrightarrow> list_all pass (checkConstraints i s))"
proof -
  from assms obtain ch where "s = evaluateChain i ch"
    by (auto simp: set_evaluateTechnologies)
  then show ?thesis
    by (simp add: feasible_evaluateChain) (simp add: checkConstraints_def Let_def)
qed

theorem feasible_iff_all_checks_pass_witness:
  "evaluateChain overBudgetInputs (hd TECH_CHAINS) \<in> set (evaluateTechnologies overBudgetInputs)
   \<and> (feasible (evaluateChain overBudgetInputs (hd TECH_CHAINS))
        \<longleftrightarrow> list_all pass (checkConstraints overBudgetInputs
                                (evaluateChain overBudgetInputs (hd TECH_CHAINS))))"
proof -
  have m: "evaluateChain overBudgetInputs (hd TECH_CHAINS)
             \<in> set (evaluateTechnologies overBudgetInputs)"
    by (simp add: set_evaluateTechnologies TECH_CHAINS_def)
  from feasible_iff_all_checks_pass [OF m] m show ?thesis by simp
qed











section \<open>Properties of the feasibility filter\<close>

lemma filterChains_result:
  "fst (filterChains req chs ds) = filter (meetsRemoval req) chs
   \<and> map action (snd (filterChains req chs ds)) = map action ds @ map (decisionLabel req) chs"
proof (induction chs arbitrary: ds)
  case Nil
  show ?case by simp
next
  case (Cons ch chs)
  let ?perf = "calculateChainPerformance (c_techs ch)"
  show ?case
  proof (cases "meetsRemoval req ch")
    case True
    let ?ds = "logDecision ds (''Included '' @ c_name ch)
                 (MeetsAll (p_tdsRemoval ?perf * Num 100) (p_tssRemoval ?perf * Num 100))"
    from True have "filterChains req (ch # chs) ds
        = (ch # fst (filterChains req chs ?ds), snd (filterChains req chs ?ds))"
      by (simp add: meetsRemoval_def Let_def split: prod.splits)
    with Cons.IH [of ?ds] True show ?thesis
      by (simp add: logDecision_def decisionLabel_def)
  next
    case False
    let ?ds = "logDecision ds (''Excluded '' @ c_name ch)
                 (DoesNotMeet (p_tdsRemoval ?perf * Num 100) (req_tds req * Num 100))"
    from False have "filterChains req (ch # chs) ds = filterChains req chs ?ds"
      by (auto simp add: meetsRemoval_def Let_def)
    with Cons.IH [of ?ds] False show ?thesis
      by (simp add: logDecision_def decisionLabel_def)
  qed
qed

text \<open>The combined TDS removal and the combined capital multiplier of the eight chains.\<close>

lemma chain_tds:
  "map (\<lambda>ch. p_tdsRemoval (calculateChainPerformance (c_techs ch))) TECH_CHAINS
     = [Num 0.9715, Num 0.973, Num 0.05, Num 0.1, Num 0.9715, Num 0.9715, Num 0.64, Num 0.9772]"
  by (simp add: TECH_CHAINS_def calculateChainPerformance_def chainStep_def
        TECHNOLOGIES_get_def TECHNOLOGIES_def mk_tech_def)

lemma chain_capexFactor:
  "map (\<lambda>ch. p_capexFactor (calculateChainPerformance (c_techs ch))) TECH_CHAINS
     = [Num 3.2, Num 4, Num 1, Num 1.8, Num 3.5, Num 4, Num 3.4, Num 4.7]"
  by (simp add: TECH_CHAINS_def calculateChainPerformance_def chainStep_def
        TECHNOLOGIES_get_def TECHNOLOGIES_def mk_tech_def)

text \<open>
  For the default specification (TDS from 1500 to 10, a removal of 149/150) no chain
  passes the filter.
\<close>

lemma default_spec_no_chain: "fst (filterFeasibleChains (new_CustomerSpec emptyData)) = []"
proof -
  have r: "req_tds (getRequiredRemoval (new_CustomerSpec emptyData)) = Num (149 / 150)"
    by (simp add: getRequiredRemoval_def spec_defs)
  have "\<forall>x \<in> set (map (\<lambda>ch. p_tdsRemoval (calculateChainPerformance (c_techs ch))) TECH_CHAINS).
          \<not> Num (149 / 150) \<le> x"
    unfolding chain_tds by simp
  then have "filter (meetsRemoval (getRequiredRemoval (new_CustomerSpec emptyData))) TECH_CHAINS = []"
    by (simp add: filter_empty_conv meetsRemoval_def r)
  then show ?thesis
    by (simp add: filterFeasibleChains_def filterChains_result)
qed

lemma length_evaluateTechnologies: "length (evaluateTechnologies i) = 8"
  by (simp add: evaluateTechnologies_def length_sortBy) (simp add: TECH_CHAINS_def)

text \<open>
  C6, as stated: the feasibility filter keeps every evaluated chain in the list it
  returns, infeasible ones included. \<open>SolutionEngine.filterFeasibleChains\<close> does not:
  for the default specification it returns the empty list, all eight chains dropped.
\<close>

theorem filterFeasibleChains_drops_chains:
  "length TECH_CHAINS = 8 \<and> fst (filterFeasibleChains (new_CustomerSpec emptyData)) = []"
  using default_spec_no_chain by (simp add: TECH_CHAINS_def)

text \<open>
  C6, amended. \<open>evaluateTechnologies\<close> keeps every chain: its result is a permutation of
  the solutions of the eight chains of \<open>TECH_CHAINS\<close>, one per chain and under the
  chain's name, feasible or not. \<open>SolutionEngine.filterFeasibleChains\<close> returns, in
  order, exactly the chains that meet the TDS, TSS and BOD removal requirements, and
  drops the others; what it keeps for every chain, dropped ones included, is an entry of
  the decision trail (``Included ...'' or ``Excluded ...'').
\<close>

theorem candidates_kept_or_filtered:
  "mset (evaluateTechnologies i) = mset (map (evaluateChain i) TECH_CHAINS)
   \<and> map name (map (evaluateChain i) TECH_CHAINS) = map c_name TECH_CHAINS
   \<and> length (evaluateTechnologies i) = 8
   \<and> fst (filterFeasibleChains spec) = filter (meetsRemoval (getRequiredRemoval spec)) TECH_CHAINS
   \<and> map action (snd (filterFeasibleChains spec))
       = map (decisionLabel (getRequiredRemoval spec)) TECH_CHAINS"
proof -
  have "map name (map (evaluateChain i) TECH_CHAINS) = map c_name TECH_CHAINS"
    by (simp add: evaluateChain_def Let_def)
  with length_evaluateTechnologies [of i] show ?thesis
    by (simp add: evaluateTechnologies_def mset_sortBy filterFeasibleChains_def
          filterChains_result)
qed

section \<open>Properties of the pricing model\<close>

subsection \<open>The margins the loop tests\<close>

lemma pow2_pos: "0 < pow2 e"
  by (simp add: pow2_def)

lemma pow2_powr: "pow2 e = 2 powr (of_int e)"
  by (simp add: pow2_def powr_realpow [symmetric] powr_minus divide_simps)

text \<open>Rounding a number whose binade is known.\<close>

lemma double_binade:
  assumes "pow2 e \<le> x" "x < pow2 (e + 1)"
  shows "double x = of_int (roundHalfEven (x / pow2 (e - 52))) * pow2 (e - 52)"
proof -
  have x0: "0 < x" using assms(1) pow2_pos [of e] by simp
  have "\<lfloor>log 2 x\<rfloor> = e"
    using assms x0 by (simp add: floor_log_eq_powr_iff pow2_powr)
  then show ?thesis using x0 by (simp add: double_def Let_def)
qed

text \<open>The three literals of the loop, and the thirty rounded additions it performs.\<close>

lemma double_0_10: "double 0.10 = 3602879701896397 / 2 ^ 55"
  by (subst double_binade [where e = "-4"]) (simp_all add: pow2_def roundHalfEven_def Let_def)

lemma double_0_01: "double 0.01 = 5764607523034235 / 2 ^ 59"
  by (subst double_binade [where e = "-7"]) (simp_all add: pow2_def roundHalfEven_def Let_def)

lemma double_0_40: "double 0.40 = 3602879701896397 / 2 ^ 53"
  by (subst double_binade [where e = "-2"]) (simp_all add: pow2_def roundHalfEven_def Let_def)

lemma grid_steps_a:
  shows "double (3602879701896397 / 2 ^ 55 + double 0.01) = 7926335344172073 / 2 ^ 56"
    and "double (7926335344172073 / 2 ^ 56 + double 0.01) = 1080863910568919 / 2 ^ 53"
  unfolding double_0_01
  by (subst double_binade [where e = "-4"], simp_all add: pow2_def roundHalfEven_def Let_def)+

lemma grid_steps_b:
  shows "double (1080863910568919 / 2 ^ 53 + double 0.01) = 1170935903116329 / 2 ^ 53"
    and "double (1170935903116329 / 2 ^ 53 + double 0.01) = 1261007895663739 / 2 ^ 53"
    and "double (1261007895663739 / 2 ^ 53 + double 0.01) = 1351079888211149 / 2 ^ 53"
    and "double (1351079888211149 / 2 ^ 53 + double 0.01) = 1441151880758559 / 2 ^ 53"
    and "double (1441151880758559 / 2 ^ 53 + double 0.01) = 1531223873305969 / 2 ^ 53"
    and "double (1531223873305969 / 2 ^ 53 + double 0.01) = 1621295865853379 / 2 ^ 53"
    and "double (1621295865853379 / 2 ^ 53 + double 0.01) = 1711367858400789 / 2 ^ 53"
    and "double (1711367858400789 / 2 ^ 53 + double 0.01) = 1801439850948199 / 2 ^ 53"
    and "double (1801439850948199 / 2 ^ 53 + double 0.01) = 1891511843495609 / 2 ^ 53"
    and "double (1891511843495609 / 2 ^ 53 + double 0.01) = 1981583836043019 / 2 ^ 53"
    and "double (1981583836043019 / 2 ^ 53 + double 0.01) = 2071655828590429 / 2 ^ 53"
    and "double (2071655828590429 / 2 ^ 53 + double 0.01) = 2161727821137839 / 2 ^ 53"
  unfolding double_0_01
  by (subst double_binade [where e = "-3"], simp_all add: pow2_def roundHalfEven_def Let_def)+

lemma grid_steps_c:
  shows "double (2161727821137839 / 2 ^ 53 + double 0.01) = 2251799813685249 / 2 ^ 53"
    and "double (2251799813685249 / 2 ^ 53 + double 0.01) = 2341871806232659 / 2 ^ 53"
    and "double (2341871806232659 / 2 ^ 53 + double 0.01) = 2431943798780069 / 2 ^ 53"
    and "double (2431943798780069 / 2 ^ 53 + double 0.01) = 2522015791327479 / 2 ^ 53"
    and "double (2522015791327479 / 2 ^ 53 + double 0.01) = 2612087783874889 / 2 ^ 53"
    and "double (2612087783874889 / 2 ^ 53 + double 0.01) = 2702159776422299 / 2 ^ 53"
    and "double (2702159776422299 / 2 ^ 53 + double 0.01) = 2792231768969709 / 2 ^ 53"
    and "double (2792231768969709 / 2 ^ 53 + double 0.01) = 2882303761517119 / 2 ^ 53"
    and "double (2882303761517119 / 2 ^ 53 + double 0.01) = 2972375754064529 / 2 ^ 53"
    and "double (2972375754064529 / 2 ^ 53 + double 0.01) = 3062447746611939 / 2 ^ 53"
    and "double (3062447746611939 / 2 ^ 53 + double 0.01) = 3152519739159349 / 2 ^ 53"
    and "double (3152519739159349 / 2 ^ 53 + double 0.01) = 3242591731706759 / 2 ^ 53"
    and "double (3242591731706759 / 2 ^ 53 + double 0.01) = 3332663724254169 / 2 ^ 53"
    and "double (3332663724254169 / 2 ^ 53 + double 0.01) = 3422735716801579 / 2 ^ 53"
    and "double (3422735716801579 / 2 ^ 53 + double 0.01) = 3512807709348989 / 2 ^ 53"
    and "double (3512807709348989 / 2 ^ 53 + double 0.01) = 3602879701896399 / 2 ^ 53"
  unfolding double_0_01
  by (subst double_binade [where e = "-2"], simp_all add: pow2_def roundHalfEven_def Let_def)+


lemma tested_end: "\<not> m \<le> double 0.40 \<Longrightarrow> marginsTested m = Some []"
  by (subst marginsTested.simps) simp

lemma tested_step:
  "m \<le> double 0.40 \<Longrightarrow> double (m + double 0.01) = m' \<Longrightarrow> marginsTested m' = Some ms
     \<Longrightarrow> marginsTested m = Some (m # ms)"
  by (subst marginsTested.simps) simp

text \<open>
  The loop tests thirty margins, from \<open>0.1\<close> to \<open>0.39000000000000024\<close>: the next
  value of the counter, \<open>0.40000000000000024\<close>, is above the double \<open>0.40\<close>.
\<close>

lemma marginsTested_grid: "marginsTested (double 0.10) = Some doubleGrid"
  unfolding double_0_10 doubleGrid_def
  by ((rule tested_step, (simp only: double_0_40, simp),
       rule grid_steps_a grid_steps_b grid_steps_c)+,
      rule tested_end, (simp only: double_0_40, simp))

lemma length_doubleGrid: "length doubleGrid = 30"
  by (simp add: doubleGrid_def)

text \<open>
  At the last margin tested the price of the sample candidate (capital cost 2020000) is
  2807800; the price 2828000 of a margin of 0.40 is never proposed.
\<close>

lemma last_margin_price:
  "last doubleGrid = 3512807709348989 / 2 ^ 53
   \<and> calculatePrice sampleCandidate (last doubleGrid) = Num 2807800"
  by (simp add: doubleGrid_def calculatePrice_def sampleCandidate_def)


lemma tested_Nil: "marginsTested m = Some [] \<Longrightarrow> \<not> m \<le> double 0.40"
  by (subst (asm) marginsTested.simps) (auto split: if_splits simp: bind_eq_Some_conv)

lemma tested_Cons:
  "marginsTested m = Some (a # ms) \<Longrightarrow>
     m \<le> double 0.40 \<and> a = m \<and> marginsTested (double (m + double 0.01)) = Some ms"
  by (subst (asm) marginsTested.simps) (auto split: if_splits simp: bind_eq_Some_conv)

subsection \<open>The loop as a fold over the margins tested\<close>

lemma loop_end: "\<not> m \<le> double 0.40 \<Longrightarrow> marginLoop sol m st = Some st"
  by (subst marginLoop.simps) simp

lemma loop_step:
  "m \<le> double 0.40 \<Longrightarrow>
     marginLoop sol m st = marginLoop sol (double (m + double 0.01)) (priceStep sol st m)"
  by (subst marginLoop.simps) (simp add: priceStep_def Let_def split: prod.splits)

lemma marginLoop_tested:
  "marginsTested m = Some ms \<Longrightarrow> marginLoop sol m st = Some (foldl (priceStep sol) st ms)"
proof (induction ms arbitrary: m st)
  case Nil
  then have "\<not> m \<le> double 0.40" by (rule tested_Nil)
  then show ?case by (simp add: loop_end)
next
  case (Cons a ms)
  from tested_Cons [OF Cons.prems] have
    m: "m \<le> double 0.40" "a = m" "marginsTested (double (m + double 0.01)) = Some ms"
    by simp_all
  show ?case
    using Cons.IH [OF m(3), of "priceStep sol st m"] by (simp add: loop_step [OF m(1)] m(2))
qed

text \<open>The loop returns, whatever the candidate: it is the fold over the thirty margins.\<close>

lemma marginLoop_returns:
  "marginLoop sol (double 0.10) st = Some (foldl (priceStep sol) st doubleGrid)"
  by (rule marginLoop_tested [OF marginsTested_grid])

lemma findOptimalPrice_returns: "\<exists>r. findOptimalPrice sol = Some r"
  unfolding findOptimalPrice_def marginLoop_returns by (simp split: prod.splits)

subsection \<open>The invariant of the loop\<close>








lemma add_NaN [simp]: "x + NaN = NaN"
  by (cases x) simp_all





section \<open>Properties of the outcome when no chain is feasible\<close>

lemma first_elem_Some: "xs \<noteq> [] \<Longrightarrow> \<exists>x. first_elem xs = Some x \<and> x \<in> set xs"
  by (cases xs) (simp_all add: first_elem_def)

lemma run_result:
  "\<exists>r b. run i = Inr r \<and> bestSolution r = Some b \<and> first_elem (evaluateTechnologies i) = Some b
         \<and> b \<in> set (evaluateTechnologies i)
         \<and> res_solutions r = evaluateTechnologies i
         \<and> res_constraints r = checkConstraints i b"
proof -
  have "evaluateTechnologies i \<noteq> []"
    using length_evaluateTechnologies [of i] by auto
  from first_elem_Some [OF this] obtain b where
    "first_elem (evaluateTechnologies i) = Some b" "b \<in> set (evaluateTechnologies i)" by blast
  then show ?thesis by (simp add: run_def Let_def)
qed

lemma overBudget_infeasible: "\<not> list_ex feasible (evaluateTechnologies overBudgetInputs)"
proof -
  have "\<forall>x \<in> set (map (\<lambda>ch. p_capexFactor (calculateChainPerformance (c_techs ch))) TECH_CHAINS).
          \<not> x * Num 100 * Num 1000 \<le> Num 1000"
    unfolding chain_capexFactor by simp
  then have "\<forall>ch \<in> set TECH_CHAINS. \<not> feasible (evaluateChain overBudgetInputs ch)"
    by (simp add: evaluateChain_def Let_def overBudgetInputs_def)
  then show ?thesis
    by (simp add: list_ex_iff set_evaluateTechnologies)
qed

lemma mapM_Nil: "mapM f xs = Inr [] \<longleftrightarrow> xs = []"
  by (cases xs) (simp_all split: sum.splits)

lemma sortBy_Nil: "sortBy cmp xs = [] \<longleftrightarrow> xs = []"
  using length_sortBy [of cmp xs] by (metis length_0_conv)

lemma evaluateSolution_error: "evaluateSolution spec ch = Inl e \<Longrightarrow> e = TypeError"
  by (auto simp: evaluateSolution_def engineConfidence_def Let_def
       split: sum.splits option.splits if_splits)

lemma mapM_error: "mapM (evaluateSolution spec) xs = Inl e \<Longrightarrow> e = TypeError"
  by (induction xs arbitrary: e) (auto split: sum.splits dest: evaluateSolution_error)

lemma generateSolutions_error: "generateSolutions spec = Inl e \<Longrightarrow> e = TypeError"
  by (auto simp: generateSolutions_def split: prod.splits sum.splits dest: mapM_error)

lemma generateSolutions_Nil:
  "(\<exists>ds. generateSolutions spec = Inr ([], ds)) \<longleftrightarrow> fst (filterFeasibleChains spec) = []"
  by (cases "filterFeasibleChains spec")
     (auto simp: generateSolutions_def sortBy_Nil mapM_Nil split: sum.splits)

lemma generateProposal_infeasible:
  "generateProposal d
     = Some (Inl (Error ''No feasible solutions found for the given requirements''))
     \<longleftrightarrow> valid (validate (new_CustomerSpec d))
         \<and> fst (filterFeasibleChains (new_CustomerSpec d)) = []"
proof (cases "valid (validate (new_CustomerSpec d))")
  case False
  then show ?thesis by (simp add: generateProposal_def Let_def)
next
  case True
  show ?thesis
  proof (cases "generateSolutions (new_CustomerSpec d)")
    case (Inl e)
    with generateSolutions_error [OF Inl] generateSolutions_Nil [of "new_CustomerSpec d"] True
    show ?thesis by (auto simp add: generateProposal_def Let_def)
  next
    case (Inr p)
    obtain sols ds where p: "p = (sols, ds)" by (cases p)
    with Inr generateSolutions_Nil [of "new_CustomerSpec d"] True
    show ?thesis
      by (cases sols) (auto simp add: generateProposal_def Let_def split: option.splits)
  qed
qed

text \<open>\<open>generateProposal\<close> always returns: its only loop, the margin search, does.\<close>

lemma findOptimalPrice_not_None: "findOptimalPrice sol \<noteq> None"
  using findOptimalPrice_returns [of sol] by auto

lemma generateProposal_returns: "\<exists>r. generateProposal d = Some r"
  by (auto simp: generateProposal_def Let_def findOptimalPrice_not_None
       split: sum.splits list.splits option.splits)

text \<open>
  C9, as stated: when no chain satisfies all constraints, the result's \<open>bestSolution\<close> is
  undefined or null (and a top-level diagnostic lists the constraints no chain could
  satisfy). For the over-constrained budget of \<open>overBudgetInputs\<close> no solution is
  feasible, and \<open>Simulator.run\<close> returns a result whose \<open>bestSolution\<close> is defined.
\<close>

theorem run_bestSolution_defined:
  "\<not> list_ex feasible (evaluateTechnologies overBudgetInputs)
   \<and> (case run overBudgetInputs of Inl e \<Rightarrow> False | Inr r \<Rightarrow> bestSolution r \<noteq> None)"
  using run_result [of overBudgetInputs] overBudget_infeasible by auto

text \<open>
  C9, amended. \<open>Simulator.run\<close> always returns a result, and its \<open>bestSolution\<close> is the
  first of the ranked solutions, never undefined; when no chain satisfies all constraints
  it is an infeasible solution, and the condition shows in its \<open>feasible\<close> flag and in
  the failed checks of the result's \<open>constraints\<close> (the checks of that one solution),
  not in a separate diagnostic. \<open>generateProposal\<close> fails with the error
  ``No feasible solutions found for the given requirements'', which names no
  constraint, exactly when the specification is valid and no chain passes the removal
  filter.
\<close>

theorem no_feasible_chain_outcome:
  "(\<exists>r b. run i = Inr r \<and> bestSolution r = Some b
          \<and> first_elem (res_solutions r) = Some b
          \<and> res_solutions r = evaluateTechnologies i
          \<and> res_constraints r = checkConstraints i b
          \<and> (\<not> list_ex feasible (res_solutions r)
               \<longrightarrow> \<not> feasible b \<and> \<not> list_all pass (res_constraints r)))
   \<and> (generateProposal d
         = Some (Inl (Error ''No feasible solutions found for the given requirements''))
       \<longleftrightarrow> valid (validate (new_CustomerSpec d))
           \<and> fst (filterFeasibleChains (new_CustomerSpec d)) = [])"
proof -
  from run_result [of i] obtain r b where
    rb: "run i = Inr r" "bestSolution r = Some b" "first_elem (evaluateTechnologies i) = Some b"
        "b \<in> set (evaluateTechnologies i)" "res_solutions r = evaluateTechnologies i"
        "res_constraints r = checkConstraints i b" by blast
  from rb(4) obtain ch where "b = evaluateChain i ch"
    by (auto simp: set_evaluateTechnologies)
  then have "feasible b = list_all pass (checkConstraints i b)"
    by (simp add: feasible_evaluateChain)
  moreover have "\<not> list_ex feasible (evaluateTechnologies i) \<longrightarrow> \<not> feasible b"
    using rb(4) by (auto simp: list_ex_iff)
  ultimately have "\<not> list_ex feasible (res_solutions r)
               \<longrightarrow> \<not> feasible b \<and> \<not> list_all pass (res_constraints r)"
    by (simp add: rb(5,6))
  with rb generateProposal_infeasible [of d] show ?thesis by auto
qed

theorem no_feasible_chain_outcome_witness:
  "\<not> list_ex feasible (evaluateTechnologies overBudgetInputs)
   \<and> (\<exists>r b. run overBudgetInputs = Inr r \<and> bestSolution r = Some b
            \<and> \<not> feasible b \<and> \<not> list_all pass (res_constraints r))
   \<and> valid (validate (new_CustomerSpec emptyData))
   \<and> fst (filterFeasibleChains (new_CustomerSpec emptyData)) = []
   \<and> generateProposal emptyData
       = Some (Inl (Error ''No feasible solutions found for the given requirements''))"
proof -
  have v: "valid (validate (new_CustomerSpec emptyData))"
    by (simp add: validate_def spec_defs)
  from no_feasible_chain_outcome [of overBudgetInputs emptyData]
    overBudget_infeasible default_spec_no_chain v
  show ?thesis by auto
qed

end
